theory Spec2Isabelle
  imports
    Complex_Main
    "HOL-Library.Char_ord"
    "HOL-Library.List_Lexorder"
    "HOL-Library.Product_Lexorder"
    "HOL-Library.Multiset"
    "HOL-Library.Sublist"
begin

section \<open>DC Audit Report Generator (\<^verbatim>\<open>app.py\<close>): a shallow embedding\<close>

text \<open>
  The theory embeds the data pipeline of \<^verbatim>\<open>app.py\<close>: the two utility functions
  \<^verbatim>\<open>extract_brand_from_product\<close> and \<^verbatim>\<open>safe_numeric\<close>, the validator
  \<^verbatim>\<open>validate_required_columns\<close>, the aggregation \<^verbatim>\<open>process_packages_to_audit\<close>,
  the two filters of \<^verbatim>\<open>main\<close> (lines 481-487) and the list of flowables that
  \<^verbatim>\<open>generate_audit_pdf\<close> hands to \<^verbatim>\<open>doc.build\<close>.

  Conventions of the model.
  \<^item> A Python \<^verbatim>\<open>str\<close> is a \<^typ>\<open>string\<close>; a \<^typ>\<open>char\<close> stands for a code point below
    256, so \<^verbatim>\<open>len\<close>, slicing and comparison count code points as Python does.
  \<^item> A Python \<^verbatim>\<open>float\<close> is a \<open>pyfloat\<close>: an exact rational, one of the two infinities,
    or NaN. Binary rounding of float arithmetic and overflow to infinity are not
    modelled, and neither is the 64-bit range of \<^verbatim>\<open>astype(int)\<close>.
  \<^item> The three key columns (\<^verbatim>\<open>Category\<close>, \<^verbatim>\<open>Distru Product\<close>,
    \<^verbatim>\<open>Distru Batch Number\<close>) are text columns as \<^verbatim>\<open>read_csv\<close> delivers them: a cell is
    a \<^verbatim>\<open>str\<close> or missing (NaN), modelled as \<^typ>\<open>string option\<close>.
    \<^verbatim>\<open>Available Quantity\<close> holds any scalar \<^verbatim>\<open>read_csv\<close> can infer.
  \<^item> Every exception the source can raise is a value \<open>Inl e\<close> of a sum type.
\<close>

subsection \<open>Python values\<close>

datatype pyfloat = Fin rat | PInf | NInf | NaN

datatype cell = Str string | Num pyfloat | Bool bool

datatype error = ValueError | TypeError | IntCastingNaNError

text \<open>\<^verbatim>\<open>pd.isna\<close> / \<^verbatim>\<open>pd.notna\<close> on a scalar: only NaN is missing.\<close>

definition pd_notna :: "cell \<Rightarrow> bool" where
  "pd_notna v = (v \<noteq> Num NaN)"

subsection \<open>Strings\<close>

text \<open>The code points below 256 for which \<^verbatim>\<open>str.isspace\<close> holds; \<^verbatim>\<open>str.strip()\<close> removes them
  at both ends.\<close>

definition is_space :: "char \<Rightarrow> bool" where
  "is_space c = (of_char c \<in> {9, 10, 11, 12, 13, 28, 29, 30, 31, 32, 133, 160 :: nat})"

definition strip :: "string \<Rightarrow> string" where
  "strip s = rev (dropWhile is_space (rev (dropWhile is_space s)))"

text \<open>\<^verbatim>\<open>sep in s\<close> for a non-empty \<^verbatim>\<open>sep\<close>.\<close>

fun contains :: "string \<Rightarrow> string \<Rightarrow> bool" where
  "contains sep [] = (sep = [])"
| "contains sep (c # cs) = (prefix sep (c # cs) \<or> contains sep cs)"

text \<open>\<^verbatim>\<open>s.split(sep)[0]\<close> for a non-empty \<^verbatim>\<open>sep\<close>: the text before the first occurrence of
  \<^verbatim>\<open>sep\<close>, the whole of \<^verbatim>\<open>s\<close> when there is none.\<close>

fun split_head :: "string \<Rightarrow> string \<Rightarrow> string" where
  "split_head sep [] = []"
| "split_head sep (c # cs) = (if prefix sep (c # cs) then [] else c # split_head sep cs)"

text \<open>\<^verbatim>\<open>sep.join(xs)\<close>.\<close>

fun join :: "string \<Rightarrow> string list \<Rightarrow> string" where
  "join sep [] = []"
| "join sep [x] = x"
| "join sep (x # y # ys) = x @ sep @ join sep (y # ys)"

text \<open>\<^verbatim>\<open>str(n)\<close> for an integer.\<close>

definition digit_char :: "nat \<Rightarrow> char" where
  "digit_char d = char_of (48 + d)"

fun str_nat :: "nat \<Rightarrow> string" where
  "str_nat n = (if n < 10 then [digit_char n] else str_nat (n div 10) @ [digit_char (n mod 10)])"

declare str_nat.simps [simp del]

definition str_int :: "int \<Rightarrow> string" where
  "str_int i = (if i < 0 then CHR ''-'' # str_nat (nat (- i)) else str_nat (nat i))"

subsection \<open>\<^verbatim>\<open>float(s)\<close> on a string\<close>

text \<open>
  CPython's \<^verbatim>\<open>float\<close> on a \<^verbatim>\<open>str\<close>: non-ASCII white space becomes a blank, white space
  (the C locale's, so without the separators 28 to 31) is stripped at both ends, single
  underscores between digits are dropped, and the rest must be, in full, an optionally
  signed \<^verbatim>\<open>inf\<close>, \<^verbatim>\<open>infinity\<close> or \<^verbatim>\<open>nan\<close> in any case, or an optionally signed
  decimal numeral with an optional fraction and exponent. \<open>None\<close> is the
  \<^verbatim>\<open>ValueError\<close>.
\<close>

definition float_space :: "char \<Rightarrow> bool" where
  "float_space c = (of_char c \<in> {9, 10, 11, 12, 13, 32, 133, 160 :: nat})"

definition float_strip :: "string \<Rightarrow> string" where
  "float_strip s = rev (dropWhile float_space (rev (dropWhile float_space s)))"

definition is_digit :: "char \<Rightarrow> bool" where
  "is_digit c = (48 \<le> (of_char c :: nat) \<and> (of_char c :: nat) \<le> 57)"

definition digit_val :: "char \<Rightarrow> nat" where
  "digit_val c = of_char c - 48"

definition to_lower :: "char \<Rightarrow> char" where
  "to_lower c = (if 65 \<le> (of_char c :: nat) \<and> (of_char c :: nat) \<le> 90
                 then char_of (of_char c + 32 :: nat) else c)"

fun drop_underscores :: "char \<Rightarrow> string \<Rightarrow> string option" where
  "drop_underscores prev [] = (if prev = CHR ''_'' then None else Some [])"
| "drop_underscores prev (c # cs) =
     (if c = CHR ''_'' then (if is_digit prev then drop_underscores c cs else None)
      else if prev = CHR ''_'' \<and> \<not> is_digit c then None
      else map_option ((#) c) (drop_underscores c cs))"

definition nat_of_digits :: "string \<Rightarrow> nat" where
  "nat_of_digits ds = foldl (\<lambda>a c. 10 * a + digit_val c) 0 ds"

definition pow10 :: "int \<Rightarrow> rat" where
  "pow10 e = (if 0 \<le> e then 10 ^ nat e else 1 / 10 ^ nat (- e))"

text \<open>The exponent part, which must reach the end of the string.\<close>

definition parse_exponent :: "string \<Rightarrow> int option" where
  "parse_exponent s =
     (case s of
        [] \<Rightarrow> Some 0
      | c # r \<Rightarrow>
          if c = CHR ''e'' \<or> c = CHR ''E'' then
            (case r of
               [] \<Rightarrow> None
             | d # ds \<Rightarrow>
                 if d = CHR ''-'' then
                   (if ds \<noteq> [] \<and> list_all is_digit ds then Some (- int (nat_of_digits ds)) else None)
                 else if d = CHR ''+'' then
                   (if ds \<noteq> [] \<and> list_all is_digit ds then Some (int (nat_of_digits ds)) else None)
                 else
                   (if list_all is_digit (d # ds) then Some (int (nat_of_digits (d # ds))) else None))
          else None)"

text \<open>An unsigned decimal numeral: digits, an optional point and digits (one digit at
  least in all), an optional exponent.\<close>

definition parse_decimal :: "string \<Rightarrow> rat option" where
  "parse_decimal s =
     (let ip = takeWhile is_digit s;
          r1 = dropWhile is_digit s;
          fp = (case r1 of [] \<Rightarrow> [] | c # r \<Rightarrow> if c = CHR ''.'' then takeWhile is_digit r else []);
          r2 = (case r1 of [] \<Rightarrow> [] | c # r \<Rightarrow> if c = CHR ''.'' then dropWhile is_digit r else r1)
      in if ip = [] \<and> fp = [] then None
         else (case parse_exponent r2 of
                 None \<Rightarrow> None
               | Some e \<Rightarrow> Some (of_nat (nat_of_digits (ip @ fp)) * pow10 (e - int (length fp)))))"

definition parse_signed :: "string \<Rightarrow> pyfloat option" where
  "parse_signed s =
     (let neg = (case s of [] \<Rightarrow> False | c # _ \<Rightarrow> c = CHR ''-'');
          body = (case s of [] \<Rightarrow> [] | c # r \<Rightarrow> if c = CHR ''-'' \<or> c = CHR ''+'' then r else s);
          low = map to_lower body
      in if low = ''inf'' \<or> low = ''infinity'' then Some (if neg then NInf else PInf)
         else if low = ''nan'' then Some NaN
         else map_option (\<lambda>r. Fin (if neg then - r else r)) (parse_decimal body))"

definition float_of_str :: "string \<Rightarrow> pyfloat option" where
  "float_of_str s =
     (case drop_underscores (CHR 0x00) (float_strip s) of
        None \<Rightarrow> None
      | Some t \<Rightarrow> parse_signed t)"

text \<open>\<^verbatim>\<open>float(value)\<close> on a cell: a number is itself, a bool is 1.0 or 0.0, a string is
  parsed and may raise.\<close>

definition py_float :: "cell \<Rightarrow> error + pyfloat" where
  "py_float v =
     (case v of
        Num x \<Rightarrow> Inr x
      | Bool b \<Rightarrow> Inr (Fin (if b then 1 else 0))
      | Str s \<Rightarrow> (case float_of_str s of None \<Rightarrow> Inl ValueError | Some x \<Rightarrow> Inr x))"

subsection \<open>Utility functions (\<^verbatim>\<open>app.py\<close>, lines 46-71)\<close>

definition extract_brand_from_product :: "string option \<Rightarrow> string" where
  "extract_brand_from_product product_name =
     (case product_name of
        None \<Rightarrow> ''Unknown''
      | Some p \<Rightarrow>
          (let name_str = strip p in
           if contains '' - '' name_str then
             (let brand = strip (split_head '' - '' name_str) in
              if brand \<noteq> [] then brand else ''Unknown'')
           else ''Unknown''))"

text \<open>The body of the \<^verbatim>\<open>try\<close> in \<^verbatim>\<open>safe_numeric\<close>, which may raise, and the function itself,
  whose bare \<^verbatim>\<open>except\<close> turns every exception into the default.\<close>

definition safe_numeric_try :: "cell \<Rightarrow> pyfloat \<Rightarrow> error + pyfloat" where
  "safe_numeric_try v dflt = (if pd_notna v then py_float v else Inr dflt)"

definition safe_numeric :: "cell \<Rightarrow> pyfloat \<Rightarrow> pyfloat" where
  "safe_numeric v dflt =
     (case safe_numeric_try v dflt of Inl e \<Rightarrow> dflt | Inr x \<Rightarrow> x)"

text \<open>The brand rule as the specification words it: the delimiter is looked for in the
  product name itself, and the text before its first occurrence is trimmed.\<close>

definition brand_of_spec :: "string option \<Rightarrow> string" where
  "brand_of_spec product_name =
     (case product_name of
        None \<Rightarrow> ''Unknown''
      | Some p \<Rightarrow>
          if contains '' - '' p then
            (if strip (split_head '' - '' p) = [] then ''Unknown'' else strip (split_head '' - '' p))
          else ''Unknown'')"

subsection \<open>Data frames\<close>

text \<open>
  A row of the uploaded frame, seen through the four columns the program reads, and a
  row of the aggregated frame. Both carry the three key columns.
\<close>

record keycols =
  Category :: "string option"
  Distru_Product :: "string option"
  Distru_Batch_Number :: "string option"

record package = keycols +
  Available_Quantity :: cell

record audit_line = keycols +
  Brand :: string
  System_Qty :: int

text \<open>The uploaded frame: its header and its rows. \<open>packages\<close> is read only after the
  validation has found all four columns in \<open>columns\<close>.\<close>

record dataframe =
  columns :: "string list"
  packages :: "package list"

text \<open>\<^verbatim>\<open>df.empty\<close>: an axis of length zero.\<close>

definition df_empty :: "dataframe \<Rightarrow> bool" where
  "df_empty df = (columns df = [] \<or> packages df = [])"

subsection \<open>Validation (\<^verbatim>\<open>app.py\<close>, lines 98-109)\<close>

definition required_cols :: "string list" where
  "required_cols = [''Distru Product'', ''Category'', ''Distru Batch Number'', ''Available Quantity'']"

definition validate_required_columns :: "dataframe option \<Rightarrow> bool \<times> string" where
  "validate_required_columns df =
     (case df of
        None \<Rightarrow> (False, ''DataFrame is empty'')
      | Some d \<Rightarrow>
          if df_empty d then (False, ''DataFrame is empty'')
          else
            (let missing = filter (\<lambda>col. col \<notin> set (columns d)) required_cols in
             if missing \<noteq> [] then (False, ''Missing required columns: '' @ join '', '' missing)
             else (True, ''All required columns present'')))"

subsection \<open>Aggregation (\<^verbatim>\<open>app.py\<close>, lines 111-141)\<close>

text \<open>The grouping key, in the order of the \<^verbatim>\<open>groupby\<close> list: Category, Brand,
  Distru Product, Distru Batch Number.\<close>

type_synonym key = "string option \<times> string \<times> string option \<times> string option"

text \<open>
  pandas orders a text column by Python's string comparison (lexicographic on code
  points) and puts missing values last, both in the sorted \<^verbatim>\<open>groupby\<close> and in
  \<^verbatim>\<open>sort_values\<close>. The flag in front makes every missing value larger than every
  string.
\<close>

definition na_last :: "string option \<Rightarrow> bool \<times> string" where
  "na_last c = (case c of None \<Rightarrow> (True, []) | Some s \<Rightarrow> (False, s))"

definition sort_order :: "key \<Rightarrow> (bool \<times> string) \<times> string \<times> (bool \<times> string) \<times> (bool \<times> string)" where
  "sort_order k = (case k of (c, b, p, n) \<Rightarrow> (na_last c, b, na_last p, na_last n))"

text \<open>Float addition on the idealised values, and the \<^verbatim>\<open>sum\<close> of one group, which
  skips NaN entries and starts from zero.\<close>

fun fadd :: "pyfloat \<Rightarrow> pyfloat \<Rightarrow> pyfloat" where
  "fadd (Fin a) (Fin b) = Fin (a + b)"
| "fadd NaN _ = NaN"
| "fadd _ NaN = NaN"
| "fadd PInf NInf = NaN"
| "fadd NInf PInf = NaN"
| "fadd PInf _ = PInf"
| "fadd _ PInf = PInf"
| "fadd NInf _ = NInf"
| "fadd _ NInf = NInf"

definition group_sum :: "pyfloat list \<Rightarrow> pyfloat" where
  "group_sum vs = foldl fadd (Fin 0) (filter (\<lambda>v. v \<noteq> NaN) vs)"

text \<open>\<^verbatim>\<open>groupby(keys, dropna=False).agg('sum').reset_index()\<close>: one row for each distinct
  key, a missing component being a key value like any other, in ascending key order;
  its value is the sum over the rows of that key.\<close>

definition groupby_sum :: "(key \<times> pyfloat) list \<Rightarrow> (key \<times> pyfloat) list" where
  "groupby_sum rs =
     map (\<lambda>k. (k, group_sum (map snd (filter (\<lambda>r. fst r = k) rs))))
       (sort_key sort_order (remdups (map fst rs)))"

text \<open>\<^verbatim>\<open>Series.round()\<close> is numpy's rounding to the nearest integer, which the numpy manual
  documents as rounding halves to the nearest even value.\<close>

definition rint :: "rat \<Rightarrow> int" where
  "rint x =
     (let f = \<lfloor>x\<rfloor>; d = x - of_int f in
      if d < 1 / 2 then f
      else if 1 / 2 < d then f + 1
      else if even f then f else f + 1)"

definition series_round :: "pyfloat \<Rightarrow> pyfloat" where
  "series_round v = (case v of Fin x \<Rightarrow> Fin (of_int (rint x)) | _ \<Rightarrow> v)"

definition is_finite :: "pyfloat \<Rightarrow> bool" where
  "is_finite v = (case v of Fin x \<Rightarrow> True | _ \<Rightarrow> False)"

text \<open>\<^verbatim>\<open>astype(int)\<close> on one finite value truncates towards zero; on a column with a
  value that is not finite pandas raises \<^verbatim>\<open>IntCastingNaNError\<close>.\<close>

definition trunc_int :: "pyfloat \<Rightarrow> int" where
  "trunc_int v = (case v of Fin x \<Rightarrow> (if 0 \<le> x then \<lfloor>x\<rfloor> else \<lceil>x\<rceil>) | _ \<Rightarrow> 0)"

definition row_key :: "package \<Rightarrow> key" where
  "row_key r =
     (Category r, extract_brand_from_product (Distru_Product r), Distru_Product r,
      Distru_Batch_Number r)"

definition line_key :: "audit_line \<Rightarrow> key" where
  "line_key l = (Category l, Brand l, Distru_Product l, Distru_Batch_Number l)"

definition mk_line :: "key \<Rightarrow> int \<Rightarrow> audit_line" where
  "mk_line k q =
     (case k of (c, b, p, n) \<Rightarrow>
        \<lparr>Category = c, Distru_Product = p, Distru_Batch_Number = n, Brand = b, System_Qty = q\<rparr>)"

definition process_packages_to_audit :: "package list \<Rightarrow> error + audit_line list" where
  "process_packages_to_audit df =
     (let audit_df = map (\<lambda>r. (row_key r, safe_numeric (Available_Quantity r) (Fin 0))) df;
          grouped = groupby_sum audit_df;
          rounded = map (\<lambda>g. (fst g, series_round (snd g))) grouped
      in if list_all (\<lambda>g. is_finite (snd g)) rounded
         then Inr (sort_key (\<lambda>l. sort_order (line_key l))
                     (map (\<lambda>g. mk_line (fst g) (trunc_int (snd g))) rounded))
         else Inl IntCastingNaNError)"

text \<open>The loading block of \<^verbatim>\<open>main\<close> (lines 379-397), without the session state: a frame
  that fails the validation is reported and never processed.\<close>

definition load_block :: "dataframe option \<Rightarrow> string + (error + audit_line list)" where
  "load_block packages_df =
     (case packages_df of
        None \<Rightarrow> Inl ''Failed to load CSV file''
      | Some d \<Rightarrow>
          (case validate_required_columns (Some d) of
             (valid, message) \<Rightarrow>
               if \<not> valid then Inl message
               else Inr (process_packages_to_audit (packages d))))"

subsection \<open>Filtering (\<^verbatim>\<open>main\<close>, lines 481-487)\<close>

text \<open>\<^verbatim>\<open>Series.isin\<close> against a list of names: a missing value is in no such list.\<close>

definition isin :: "string option \<Rightarrow> string list \<Rightarrow> bool" where
  "isin v sel = (case v of None \<Rightarrow> False | Some s \<Rightarrow> s \<in> set sel)"

definition apply_filters :: "audit_line list \<Rightarrow> string list \<Rightarrow> string list \<Rightarrow> audit_line list" where
  "apply_filters audit_df selected_categories selected_brands =
     (let filtered_df = audit_df;
          filtered_df =
            (if selected_categories \<noteq> [] \<and> ''All'' \<notin> set selected_categories
             then filter (\<lambda>r. isin (Category r) selected_categories) filtered_df
             else filtered_df);
          filtered_df =
            (if selected_brands \<noteq> [] \<and> ''All'' \<notin> set selected_brands
             then filter (\<lambda>r. isin (Some (Brand r)) selected_brands) filtered_df
             else filtered_df)
      in filtered_df)"

subsection \<open>The document (\<^verbatim>\<open>generate_audit_pdf\<close>, lines 147-332)\<close>

text \<open>
  The document is the page size given to \<^verbatim>\<open>SimpleDocTemplate\<close> and the list
  \<^verbatim>\<open>elements\<close> given to \<^verbatim>\<open>doc.build\<close>. A flowable keeps its content and its paragraph
  style; column widths, fonts and colours are left out, and so is the layout that
  reportlab computes from the list.
\<close>

datatype style = CustomTitle | CustomHeader | Heading2 | CellText

datatype tcell = Text string | Para string style

datatype flowable = Paragraph string style | Spacer rat | Table "tcell list list" | PageBreak

datatype pagesize = Letter | A4

record document =
  doc_pagesize :: pagesize
  elements :: "flowable list"

text \<open>A reading of the clock, \<^verbatim>\<open>datetime.now()\<close>, and the two \<^verbatim>\<open>strftime\<close> formats
  \<^verbatim>\<open>"%B %d, %Y"\<close> and \<^verbatim>\<open>"%I:%M %p"\<close> in the C locale. A month is between 1 and 12.\<close>

record datetime =
  year :: nat
  month :: nat
  day :: nat
  hour :: nat
  minute :: nat

definition month_name :: "nat \<Rightarrow> string" where
  "month_name m =
     (if 1 \<le> m \<and> m \<le> 12 then
        [''January'', ''February'', ''March'', ''April'', ''May'', ''June'', ''July'',
         ''August'', ''September'', ''October'', ''November'', ''December''] ! (m - 1)
      else [])"

definition pad2 :: "nat \<Rightarrow> string" where
  "pad2 n = (if n < 10 then CHR ''0'' # str_nat n else str_nat n)"

definition strftime_date :: "datetime \<Rightarrow> string" where
  "strftime_date t = month_name (month t) @ '' '' @ pad2 (day t) @ '', '' @ str_nat (year t)"

definition strftime_time :: "datetime \<Rightarrow> string" where
  "strftime_time t =
     pad2 (if hour t mod 12 = 0 then 12 else hour t mod 12) @ '':'' @ pad2 (minute t) @ '' ''
       @ (if hour t < 12 then ''AM'' else ''PM'')"

text \<open>\<^verbatim>\<open>str\<close> of a text cell: a missing value prints as \<^verbatim>\<open>nan\<close>.\<close>

definition py_str :: "string option \<Rightarrow> string" where
  "py_str c = (case c of None \<Rightarrow> ''nan'' | Some s \<Rightarrow> s)"

text \<open>\<^verbatim>\<open>Series.unique()\<close> keeps the order of first appearance and counts a missing value
  once; \<^verbatim>\<open>Series.nunique()\<close> does not count missing values.\<close>

definition unique :: "'a list \<Rightarrow> 'a list" where
  "unique xs = rev (remdups (rev xs))"

definition nunique :: "string option list \<Rightarrow> nat" where
  "nunique xs = length (unique (filter (\<lambda>x. x \<noteq> None) xs))"

text \<open>Python's \<^verbatim>\<open>sorted\<close> on the distinct categories: a missing value is a float, and
  comparing it with a \<^verbatim>\<open>str\<close> raises \<^verbatim>\<open>TypeError\<close>; on its own it needs no comparison.\<close>

definition py_sorted :: "string option list \<Rightarrow> error + string option list" where
  "py_sorted xs =
     (if None \<in> set xs then (if list_all (\<lambda>x. x = None) xs then Inr xs else Inl TypeError)
      else Inr (map Some (sort (map the xs))))"

text \<open>\<^verbatim>\<open>df['Category'] == category\<close>: a missing value equals nothing, itself included.\<close>

definition cell_eq :: "string option \<Rightarrow> string option \<Rightarrow> bool" where
  "cell_eq a b = (a \<noteq> None \<and> a = b)"

definition table_header :: "tcell list" where
  "table_header =
     [Text ''Product'', Text ''Batch #'', Text (''System'' @ [CHR 0x0A] @ ''Qty''),
      Text (''Physical'' @ [CHR 0x0A] @ ''Count'')]"

definition table_row :: "audit_line \<Rightarrow> tcell list" where
  "table_row row =
     (let product = py_str (Distru_Product row);
          product = (if length product > 60 then take 57 product @ ''...'' else product);
          batch_text = py_str (Distru_Batch_Number row)
      in [Text product, Para batch_text CellText, Text (str_int (System_Qty row)), Text []])"

text \<open>The body of the loop over \<^verbatim>\<open>enumerate(categories)\<close> for one category, \<open>n\<close> being
  \<^verbatim>\<open>len(categories)\<close>, and the loop.\<close>

definition category_section :: "audit_line list \<Rightarrow> nat \<Rightarrow> nat \<Rightarrow> string option \<Rightarrow> flowable list" where
  "category_section df n cat_idx category =
     (let cat_data = filter (\<lambda>r. cell_eq (Category r) category) df in
      [Paragraph (''<b>Category: '' @ py_str category @ ''</b> ('' @ str_nat (length cat_data)
                    @ '' items)'') Heading2,
       Spacer (1 / 10),
       Table (table_header # map table_row cat_data),
       Spacer (2 / 10)]
      @ (if int cat_idx < int n - 1 then [PageBreak] else []))"

fun sections_loop :: "audit_line list \<Rightarrow> nat \<Rightarrow> nat \<Rightarrow> string option list \<Rightarrow> flowable list" where
  "sections_loop df n cat_idx [] = []"
| "sections_loop df n cat_idx (category # rest) =
     category_section df n cat_idx category @ sections_loop df n (Suc cat_idx) rest"

definition signature_table :: flowable where
  "signature_table =
     Table [[Text ''Audited By:'', Text (replicate 40 (CHR ''_'')), Text ''Date:'',
             Text (replicate 20 (CHR ''_''))],
            [Text [], Text [], Text [], Text []],
            [Text ''Verified By:'', Text (replicate 40 (CHR ''_'')), Text ''Date:'',
             Text (replicate 20 (CHR ''_''))]]"

definition selection_text :: "string list \<Rightarrow> string \<Rightarrow> string" where
  "selection_text selected all_text =
     (if selected \<noteq> [] \<and> ''All'' \<notin> set selected then join '', '' selected else all_text)"

definition metadata_lines ::
  "datetime \<Rightarrow> datetime \<Rightarrow> audit_line list \<Rightarrow> string list \<Rightarrow> string list \<Rightarrow> string list" where
  "metadata_lines now1 now2 df selected_categories selected_brands =
     (let audit_date = strftime_date now1;
          audit_time = strftime_time now2;
          category_text = selection_text selected_categories ''All Categories'';
          brand_text = selection_text selected_brands ''All Brands'';
          unique_batches = nunique (map Distru_Batch_Number df)
      in [''<b>Date:</b> '' @ audit_date @ '' &nbsp;&nbsp;&nbsp; <b>Time:</b> '' @ audit_time
            @ '' &nbsp;&nbsp;&nbsp; <b>Unique Batches:</b> '' @ str_nat unique_batches,
          ''<b>Categories:</b> '' @ category_text @ '' &nbsp;&nbsp;&nbsp; <b>Brands:</b> ''
            @ brand_text])"

text \<open>The flowables appended before the loop (lines 198-223): title, spacer, the two
  metadata paragraphs, spacer.\<close>

definition document_head ::
  "datetime \<Rightarrow> datetime \<Rightarrow> audit_line list \<Rightarrow> string list \<Rightarrow> string list \<Rightarrow> flowable list" where
  "document_head now1 now2 df selected_categories selected_brands =
     (let title = Paragraph ''HAVEN DISTRIBUTION INVENTORY AUDIT WORKSHEET'' CustomTitle;
          metadata = metadata_lines now1 now2 df selected_categories selected_brands
      in [title, Spacer (1 / 10)] @ map (\<lambda>line. Paragraph line CustomHeader) metadata
           @ [Spacer (15 / 100)])"

text \<open>
  The function has no timestamp parameter: it calls \<^verbatim>\<open>datetime.now()\<close> twice (lines 204
  and 205). The two readings are the first two arguments of the model, so that the
  dependence on the clock is explicit.
\<close>

definition generate_audit_pdf ::
  "datetime \<Rightarrow> datetime \<Rightarrow> audit_line list \<Rightarrow> string list \<Rightarrow> string list \<Rightarrow> string
     \<Rightarrow> error + document" where
  "generate_audit_pdf now1 now2 df selected_categories selected_brands page_size =
     (let pagesize = (if page_size = ''letter'' then Letter else A4);
          head = document_head now1 now2 df selected_categories selected_brands
      in case py_sorted (unique (map Category df)) of
           Inl e \<Rightarrow> Inl e
         | Inr categories \<Rightarrow>
             Inr \<lparr>doc_pagesize = pagesize,
                  elements = head @ sections_loop df (length categories) 0 categories
                               @ [Spacer (3 / 10), signature_table]\<rparr>)"

subsection \<open>Notions used in the statements\<close>

text \<open>The coerced quantity of a row as line 125 computes it, with the default 0, and the
  sum of the coerced quantities over the rows of one key.\<close>

definition coerced :: "package \<Rightarrow> pyfloat" where
  "coerced r = safe_numeric (Available_Quantity r) (Fin 0)"

definition key_sum :: "package list \<Rightarrow> key \<Rightarrow> pyfloat" where
  "key_sum df k = group_sum (map coerced (filter (\<lambda>r. row_key r = k) df))"

definition group_keys :: "package list \<Rightarrow> key list" where
  "group_keys df = sort_key sort_order (remdups (map row_key df))"




text \<open>The filter rule of one dimension as the code has it: an empty selection and a
  selection holding \<^verbatim>\<open>'All'\<close> keep every value.\<close>

definition selection_keeps :: "string list \<Rightarrow> string option \<Rightarrow> bool" where
  "selection_keeps sel v = (sel = [] \<or> ''All'' \<in> set sel \<or> isin v sel)"

text \<open>The flowables of one category without the page break, and sections joined by a
  page break between each two.\<close>

definition section_body :: "audit_line list \<Rightarrow> string option \<Rightarrow> flowable list" where
  "section_body df category =
     [Paragraph (''<b>Category: '' @ py_str category @ ''</b> (''
                   @ str_nat (length (filter (\<lambda>r. cell_eq (Category r) category) df))
                   @ '' items)'') Heading2,
      Spacer (1 / 10),
      Table (table_header # map table_row (filter (\<lambda>r. cell_eq (Category r) category) df)),
      Spacer (2 / 10)]"

fun page_separated :: "flowable list list \<Rightarrow> flowable list" where
  "page_separated [] = []"
| "page_separated [s] = s"
| "page_separated (s # s' # ss) = s @ [PageBreak] @ page_separated (s' # ss)"


text \<open>The first metadata line for two given readings of the clock.\<close>

definition date_line :: "datetime \<Rightarrow> datetime \<Rightarrow> audit_line list \<Rightarrow> flowable" where
  "date_line now1 now2 df =
     Paragraph (''<b>Date:</b> '' @ strftime_date now1 @ '' &nbsp;&nbsp;&nbsp; <b>Time:</b> ''
                  @ strftime_time now2 @ '' &nbsp;&nbsp;&nbsp; <b>Unique Batches:</b> ''
                  @ str_nat (nunique (map Distru_Batch_Number df))) CustomHeader"

subsection \<open>Example data\<close>

definition pkg :: "string option \<Rightarrow> string option \<Rightarrow> string option \<Rightarrow> cell \<Rightarrow> package" where
  "pkg c p b q = \<lparr>Category = c, Distru_Product = p, Distru_Batch_Number = b, Available_Quantity = q\<rparr>"

definition widget_key :: key where
  "widget_key = (Some ''Vape'', ''Acme'', Some ''Acme - Widget A'', Some ''B1'')"


definition uncategorised_key :: key where
  "uncategorised_key = (None, ''Zen'', Some ''Zen - Gummies'', None)"


definition flower_key :: key where
  "flower_key = (Some ''Flower'', ''Unknown'', Some ''House Eighth'', Some ''B7'')"

definition morning :: datetime where
  "morning = \<lparr>year = 2025, month = 11, day = 7, hour = 9, minute = 5\<rparr>"

definition afternoon :: datetime where
  "afternoon = \<lparr>year = 2025, month = 11, day = 7, hour = 14, minute = 30\<rparr>"

definition two_categories :: "audit_line list" where
  "two_categories = [mk_line flower_key 3, mk_line widget_key 8]"

text \<open>The required columns that a frame lacks, in the order of \<open>required_cols\<close>.\<close>

definition missing_cols :: "dataframe \<Rightarrow> string list" where
  "missing_cols d = filter (\<lambda>col. col \<notin> set (columns d)) required_cols"

definition partial_frame :: dataframe where
  "partial_frame =
     \<lparr>columns = [''Category'', ''Distru Product'', ''Notes''],
      packages = [pkg (Some ''Vape'') (Some ''Acme - Widget A'') None (Num NaN)]\<rparr>"

section \<open>Properties\<close>

subsection \<open>Brand extraction\<close>

lemma extract_brand_spec_examples:
  "extract_brand_from_product (Some ''Acme - Widget'') = ''Acme''"
  "extract_brand_from_product (Some ''NoDelimiterHere'') = ''Unknown''"
  "extract_brand_from_product None = ''Unknown''"
  "extract_brand_from_product (Some []) = ''Unknown''"
  "extract_brand_from_product (Some '' - OnlySuffix'') = ''Unknown''"
  by code_simp+

text \<open>A trimmed string that is not empty starts with a character that is not white space.\<close>

lemma strip_nonempty_hd:
  assumes "strip s \<noteq> []"
  shows "\<not> is_space (hd (strip s))"
proof -
  define t where "t = dropWhile is_space s"
  have "t = rev (dropWhile is_space (rev t)) @ rev (takeWhile is_space (rev t))"
    by (metis rev_append rev_rev_ident takeWhile_dropWhile_id)
  then obtain ws where split: "t = strip s @ ws"
    unfolding strip_def t_def by blast
  from split assms have "t \<noteq> []"
    by simp
  moreover from split assms have "hd (strip s) = hd t"
    by simp
  ultimately show ?thesis
    unfolding t_def using hd_dropWhile[of is_space s] by simp
qed

lemma strip_Cons_nonempty:
  assumes "\<not> is_space c"
  shows "strip (c # xs) \<noteq> []"
  using assms by (auto simp: strip_def dropWhile_eq_Nil_conv)

text \<open>
  Because line 59 trims the whole name before line 60 looks for the delimiter, the
  text before the delimiter is never empty: the \<^verbatim>\<open>else 'Unknown'\<close> of line 62 cannot
  be reached.
\<close>

lemma extract_brand_guard_dead:
  assumes "contains '' - '' (strip p)"
  shows "strip (split_head '' - '' (strip p)) \<noteq> []"
proof (cases "strip p")
  case Nil
  with assms show ?thesis by simp
next
  case (Cons c cs)
  then have c: "\<not> is_space c"
    using strip_nonempty_hd[of p] by simp
  then have "c \<noteq> CHR '' ''"
    by (auto simp: is_space_def)
  then have "split_head '' - '' (strip p) = c # split_head '' - '' cs"
    by (simp add: Cons)
  then show ?thesis
    using strip_Cons_nonempty[OF c] by simp
qed

text \<open>On a name without white space at its ends the code and the worded rule agree.\<close>

lemma extract_brand_agrees_on_trimmed:
  assumes "strip p = p"
  shows "extract_brand_from_product (Some p) = brand_of_spec (Some p)"
  using assms by (simp add: extract_brand_from_product_def brand_of_spec_def Let_def)

lemma extract_brand_trailing_delimiter:
  "extract_brand_from_product (Some ''Acme - '') = ''Unknown''
   \<and> brand_of_spec (Some ''Acme - '') = ''Acme''"
  by code_simp

text \<open>
  Claim C6. Brand extraction never raises; for a product name containing \<^verbatim>\<open>" - "\<close> the
  brand is the trimmed text before the first occurrence of the delimiter, and it is
  \<^verbatim>\<open>"Unknown"\<close> when the delimiter is absent, the trimmed prefix is empty or the name is
  missing. The code departs from this rule on the name \<^verbatim>\<open>" - A - B"\<close>: the name contains
  the delimiter and the text before its first occurrence is empty, so the rule gives
  \<^verbatim>\<open>"Unknown"\<close>, but the code, which trims the name first, returns \<^verbatim>\<open>"- A"\<close>.
\<close>

theorem extract_brand_leading_delimiter:
  "extract_brand_from_product (Some '' - A - B'') = ''- A''
   \<and> brand_of_spec (Some '' - A - B'') = ''Unknown''"
  by code_simp

subsection \<open>Quantity coercion\<close>

text \<open>
  Claim C7. Quantity coercion never raises: the result is the converted number when the
  value is present and converts, and the caller's default when the value is missing or
  the conversion fails; the pipeline passes the default 0, so \<^verbatim>\<open>"12"\<close> gives 12,
  \<^verbatim>\<open>"abc"\<close> gives 0 and a missing value gives 0.
\<close>

theorem safe_numeric_total:
  "(safe_numeric v d = d \<or> py_float v = Inr (safe_numeric v d))
   \<and> (\<not> pd_notna v \<longrightarrow> safe_numeric v d = d)
   \<and> (py_float v = Inl e \<longrightarrow> safe_numeric v d = d)
   \<and> (pd_notna v \<longrightarrow> py_float v = Inr x \<longrightarrow> safe_numeric v d = x)
   \<and> coerced r = safe_numeric (Available_Quantity r) (Fin 0)"
  by (auto simp: safe_numeric_def safe_numeric_try_def coerced_def split: sum.splits)

theorem safe_numeric_total_witness:
  "safe_numeric (Str ''12'') (Fin 0) = Fin 12
   \<and> safe_numeric (Str ''abc'') (Fin 0) = Fin 0
   \<and> safe_numeric (Num NaN) (Fin 0) = Fin 0"
proof -
  have a: "pd_notna (Str ''12'')" and b: "py_float (Str ''12'') = Inr (Fin 12)"
    by code_simp+
  have c: "py_float (Str ''abc'') = Inl ValueError"
    by code_simp
  have d: "\<not> pd_notna (Num NaN)"
    by (simp add: pd_notna_def)
  from safe_numeric_total[of "Str ''12''" "Fin 0" ValueError "Fin 12"] a b
  have 1: "safe_numeric (Str ''12'') (Fin 0) = Fin 12" by blast
  from safe_numeric_total[of "Str ''abc''" "Fin 0" ValueError "Fin 0"] c
  have 2: "safe_numeric (Str ''abc'') (Fin 0) = Fin 0" by blast
  from safe_numeric_total[of "Num NaN" "Fin 0" ValueError "Fin 0"] d
  have 3: "safe_numeric (Num NaN) (Fin 0) = Fin 0" by blast
  from 1 2 3 show ?thesis by blast
qed

subsection \<open>Validation\<close>

text \<open>
  Claim C9. The validator fails exactly when the data set is empty (or absent), with the
  message for an empty data set, or when a required column is absent from a data set
  that is not empty, with a message that lists precisely the absent required columns;
  otherwise it reports success. It returns a flag and a message only, and the loading
  block processes the rows only after a success and returns the message otherwise, so
  no table is made from a frame that fails.
\<close>

theorem validate_required_columns_cases:
  "(fst (validate_required_columns df) \<longleftrightarrow>
      (\<exists>d. df = Some d \<and> \<not> df_empty d \<and> set required_cols \<subseteq> set (columns d)))
   \<and> (fst (validate_required_columns df) \<longrightarrow>
        snd (validate_required_columns df) = ''All required columns present'')
   \<and> (df = None \<or> (\<exists>d. df = Some d \<and> df_empty d) \<longrightarrow>
        validate_required_columns df = (False, ''DataFrame is empty''))
   \<and> (\<forall>d. df = Some d \<and> \<not> df_empty d \<and> \<not> set required_cols \<subseteq> set (columns d) \<longrightarrow>
        validate_required_columns df
          = (False, ''Missing required columns: '' @ join '', '' (missing_cols d))
        \<and> set (missing_cols d) = set required_cols - set (columns d)
        \<and> distinct (missing_cols d))
   \<and> (\<forall>d. df = Some d \<longrightarrow>
        load_block df
          = (if fst (validate_required_columns df) then Inr (process_packages_to_audit (packages d))
             else Inl (snd (validate_required_columns df))))"
proof -
  have set_missing: "set (missing_cols d) = set required_cols - set (columns d)" for d
    by (auto simp: missing_cols_def)
  have dist: "distinct (missing_cols d)" for d
    by (simp add: missing_cols_def required_cols_def)
  have nil: "missing_cols d = [] \<longleftrightarrow> set required_cols \<subseteq> set (columns d)" for d
    by (auto simp: missing_cols_def filter_empty_conv)
  have v: "validate_required_columns (Some d) =
      (if df_empty d then (False, ''DataFrame is empty'')
       else if set required_cols \<subseteq> set (columns d) then (True, ''All required columns present'')
       else (False, ''Missing required columns: '' @ join '', '' (missing_cols d)))" for d
    using nil[of d]
    by (simp add: validate_required_columns_def Let_def missing_cols_def[symmetric])
  have l: "load_block (Some d)
          = (if fst (validate_required_columns (Some d))
             then Inr (process_packages_to_audit (packages d))
             else Inl (snd (validate_required_columns (Some d))))" for d
    by (simp add: load_block_def split: prod.splits)
  show ?thesis
  proof (cases df)
    case None
    then show ?thesis
      by (simp add: validate_required_columns_def)
  next
    case (Some d)
    show ?thesis
      unfolding Some using set_missing[of d] dist[of d] l[of d]
      by (simp add: v)
  qed
qed

theorem validate_required_columns_cases_witness:
  "validate_required_columns (Some partial_frame)
     = (False, ''Missing required columns: Distru Batch Number, Available Quantity'')
   \<and> load_block (Some partial_frame)
     = Inl ''Missing required columns: Distru Batch Number, Available Quantity''"
proof -
  have ne: "\<not> df_empty partial_frame"
    by (simp add: df_empty_def partial_frame_def)
  have sub: "\<not> set required_cols \<subseteq> set (columns partial_frame)"
    by (simp add: required_cols_def partial_frame_def)
  have m: "missing_cols partial_frame = [''Distru Batch Number'', ''Available Quantity'']"
    by (simp add: missing_cols_def required_cols_def partial_frame_def)
  from validate_required_columns_cases[of "Some partial_frame"] ne sub
  have v: "validate_required_columns (Some partial_frame)
             = (False, ''Missing required columns: '' @ join '', '' (missing_cols partial_frame))"
    and l: "load_block (Some partial_frame)
             = (if fst (validate_required_columns (Some partial_frame))
                then Inr (process_packages_to_audit (packages partial_frame))
                else Inl (snd (validate_required_columns (Some partial_frame))))"
    by blast+
  from v m have v': "validate_required_columns (Some partial_frame)
     = (False, ''Missing required columns: Distru Batch Number, Available Quantity'')"
    by simp
  with l show ?thesis
    by simp
qed

subsection \<open>Aggregation\<close>

lemma line_key_mk_line: "line_key (mk_line k q) = k"
  by (cases k) (simp add: line_key_def mk_line_def)

lemma System_Qty_mk_line: "System_Qty (mk_line k q) = q"
  by (cases k) (simp add: mk_line_def)



lemma trunc_round_Fin: "trunc_int (series_round (Fin s)) = rint s"
  by (simp add: trunc_int_def series_round_def)

lemma is_finite_round: "is_finite (series_round v) = is_finite v"
  by (cases v) (simp_all add: is_finite_def series_round_def)

lemma groupby_vals:
  "map snd (filter (\<lambda>r. fst r = k) (map (\<lambda>r. (row_key r, coerced r)) df))
     = map coerced (filter (\<lambda>r. row_key r = k) df)"
  by (induction df) auto

lemma groupby_sum_rows:
  "groupby_sum (map (\<lambda>r. (row_key r, coerced r)) df) = map (\<lambda>k. (k, key_sum df k)) (group_keys df)"
  by (simp add: groupby_sum_def key_sum_def group_keys_def groupby_vals comp_def)



lemma sorted_group_keys: "sorted (map sort_order (group_keys df))"
  by (simp add: group_keys_def)

text \<open>The frame that \<^verbatim>\<open>groupby\<close> returns is already in the order that \<^verbatim>\<open>sort_values\<close>
  asks for, so the aggregation is one line for each key of \<open>group_keys\<close>, or the error of
  \<^verbatim>\<open>astype(int)\<close> when a sum is not finite.\<close>

lemma process_char:
  "process_packages_to_audit df =
     (if list_all (\<lambda>k. is_finite (key_sum df k)) (group_keys df)
      then Inr (map (\<lambda>k. mk_line k (trunc_int (series_round (key_sum df k)))) (group_keys df))
      else Inl IntCastingNaNError)"
proof -
  let ?lines = "map (\<lambda>k. mk_line k (trunc_int (series_round (key_sum df k)))) (group_keys df)"
  have eq: "map (\<lambda>l. sort_order (line_key l)) ?lines = map sort_order (group_keys df)"
    by (simp add: comp_def line_key_mk_line)
  have "sorted (map (\<lambda>l. sort_order (line_key l)) ?lines)"
    by (subst eq) (rule sorted_group_keys)
  then have "sort_key (\<lambda>l. sort_order (line_key l)) ?lines = ?lines"
    by (rule sort_key_id_if_sorted)
  then show ?thesis
    unfolding process_packages_to_audit_def
    by (simp add: coerced_def[symmetric] groupby_sum_rows Let_def comp_def list_all_iff is_finite_round)
qed

lemma process_InrD:
  assumes "process_packages_to_audit df = Inr t"
  shows "t = map (\<lambda>k. mk_line k (trunc_int (series_round (key_sum df k)))) (group_keys df)"
    and "\<forall>k\<in>set (group_keys df). is_finite (key_sum df k)"
  using assms by (auto simp: process_char list_all_iff split: if_splits)

lemma process_line:
  assumes "process_packages_to_audit df = Inr t" and "l \<in> set t"
  shows "\<exists>s. key_sum df (line_key l) = Fin s \<and> System_Qty l = rint s"
proof -
  from process_InrD[OF assms(1)] assms(2) obtain k
    where l: "l = mk_line k (trunc_int (series_round (key_sum df k)))"
      and fin: "is_finite (key_sum df k)"
    by auto
  from fin obtain s where s: "key_sum df k = Fin s"
    by (cases "key_sum df k") (simp_all add: is_finite_def)
  show ?thesis
    using s l by (simp add: line_key_mk_line System_Qty_mk_line trunc_round_Fin)
qed


text \<open>A group whose sum is an integer keeps it: with whole quantities the \<open>System_Qty\<close> is
  the sum itself.\<close>

lemma rint_of_int: "rint (of_int n) = n"
  by (simp add: rint_def Let_def)

lemma system_qty_integral_sum:
  assumes "process_packages_to_audit df = Inr t" and "l \<in> set t"
    and "key_sum df (line_key l) = Fin (of_int n)"
  shows "System_Qty l = n"
  using process_line[OF assms(1,2)] assms(3) by (auto simp: rint_of_int)

text \<open>The aggregation returns a table whenever every coerced quantity is finite.\<close>

lemma fadd_finite: "is_finite a \<Longrightarrow> is_finite x \<Longrightarrow> is_finite (fadd a x)"
  by (cases a; cases x) (simp_all add: is_finite_def)

lemma foldl_fadd_finite:
  "is_finite a \<Longrightarrow> \<forall>v\<in>set vs. is_finite v \<Longrightarrow> is_finite (foldl fadd a vs)"
  by (induction vs arbitrary: a) (simp_all add: fadd_finite)

lemma group_sum_finite: "\<forall>v\<in>set vs. is_finite v \<Longrightarrow> is_finite (group_sum vs)"
  unfolding group_sum_def by (rule foldl_fadd_finite) (auto simp: is_finite_def)

lemma process_succeeds:
  assumes "\<forall>r\<in>set df. is_finite (coerced r)"
  shows "\<exists>t. process_packages_to_audit df = Inr t"
proof -
  have "is_finite (key_sum df k)" for k
    unfolding key_sum_def using assms by (intro group_sum_finite) auto
  then show ?thesis
    by (simp add: process_char list_all_iff)
qed













text \<open>The comparison of strings is by code point, so it is sensitive to case, and a
  proper prefix comes first.\<close>

lemma string_order_examples:
  "''Zebra'' < ''apple''" "''Vape'' < ''Vape 1g''" "\<not> ''a'' < ''A''"
  by code_simp+














subsection \<open>Filtering\<close>

text \<open>
  Claim C1. For each dimension (category, brand) a selection that holds \<^verbatim>\<open>'All'\<close>
  applies no filter, and two such selections return the table unchanged; selections
  that are not empty and do not hold \<^verbatim>\<open>'All'\<close> keep the rows that match on both
  dimensions, in their order. An empty selection does not return zero rows: the test
  \<^verbatim>\<open>if selected_categories and ...\<close> of line 483 (and of line 486) skips the filter, so
  an empty selection behaves as \<^verbatim>\<open>'All'\<close>.
\<close>

theorem apply_filters_rule:
  "apply_filters df cats brands
     = filter (\<lambda>r. selection_keeps cats (Category r) \<and> selection_keeps brands (Some (Brand r))) df
   \<and> (''All'' \<in> set cats \<and> ''All'' \<in> set brands \<longrightarrow> apply_filters df cats brands = df)
   \<and> apply_filters df [] brands = apply_filters df [''All''] brands
   \<and> apply_filters df cats [] = apply_filters df cats [''All'']
   \<and> (cats \<noteq> [] \<and> ''All'' \<notin> set cats \<and> brands \<noteq> [] \<and> ''All'' \<notin> set brands \<longrightarrow>
        apply_filters df cats brands
          = filter (\<lambda>r. isin (Category r) cats \<and> Brand r \<in> set brands) df
      \<and> set (apply_filters df cats brands)
          = set (filter (\<lambda>r. isin (Category r) cats) df) \<inter> set (filter (\<lambda>r. Brand r \<in> set brands) df))"
  by (auto simp: apply_filters_def selection_keeps_def isin_def Let_def)

theorem apply_filters_rule_witness:
  "apply_filters two_categories [''Vape'', ''Edible''] [''Acme''] = [mk_line widget_key 8]
   \<and> apply_filters two_categories [''All''] [''All''] = two_categories"
proof -
  have h: "[''Vape'', ''Edible''] \<noteq> [] \<and> ''All'' \<notin> set [''Vape'', ''Edible'']
      \<and> [''Acme''] \<noteq> [] \<and> ''All'' \<notin> set [''Acme'']"
    by simp
  from apply_filters_rule[of two_categories "[''Vape'', ''Edible'']" "[''Acme'']"] h
  have "apply_filters two_categories [''Vape'', ''Edible''] [''Acme'']
          = filter (\<lambda>r. isin (Category r) [''Vape'', ''Edible''] \<and> Brand r \<in> set [''Acme'']) two_categories"
    by blast
  also have "\<dots> = [mk_line widget_key 8]"
    by code_simp
  finally have 1: "apply_filters two_categories [''Vape'', ''Edible''] [''Acme''] = [mk_line widget_key 8]" .
  have h2: "''All'' \<in> set [''All''] \<and> ''All'' \<in> set [''All'']"
    by simp
  from apply_filters_rule[of two_categories "[''All'']" "[''All'']"] h2
  have 2: "apply_filters two_categories [''All''] [''All''] = two_categories"
    by blast
  from 1 2 show ?thesis
    by blast
qed

text \<open>An empty category selection, with the brand selection \<^verbatim>\<open>['All']\<close>, returns the one row of the table.\<close>

theorem apply_filters_empty_selection_counterexample:
  "apply_filters [mk_line widget_key 8] [] [''All''] \<noteq> []"
  by (simp add: apply_filters_def)

subsection \<open>The document\<close>

lemma category_section_eq:
  "category_section df n i c = section_body df c @ (if Suc i < n then [PageBreak] else [])"
  by (auto simp: category_section_def section_body_def Let_def)

lemma sections_loop_page_separated:
  "n = i + length cs \<Longrightarrow> sections_loop df n i cs = page_separated (map (section_body df) cs)"
proof (induction cs arbitrary: i)
  case Nil
  then show ?case by simp
next
  case (Cons c cs)
  show ?case
  proof (cases cs)
    case Nil
    with Cons.prems show ?thesis
      by (simp add: category_section_eq)
  next
    case (Cons c' cs')
    from Cons.prems have "n = Suc i + length cs" by simp
    from Cons.IH[OF this] Cons.prems Cons show ?thesis
      by (simp add: category_section_eq)
  qed
qed








lemma unique_props: "distinct (unique xs)" "set (unique xs) = set xs" "length (unique xs) = card (set xs)"
proof -
  show "distinct (unique xs)" "set (unique xs) = set xs"
    by (simp_all add: unique_def)
  then show "length (unique xs) = card (set xs)"
    by (metis distinct_card)
qed


lemma document_head_eq:
  "document_head a b df cs bs =
     [Paragraph ''HAVEN DISTRIBUTION INVENTORY AUDIT WORKSHEET'' CustomTitle, Spacer (1 / 10),
      date_line a b df,
      Paragraph (''<b>Categories:</b> '' @ selection_text cs ''All Categories''
                   @ '' &nbsp;&nbsp;&nbsp; <b>Brands:</b> '' @ selection_text bs ''All Brands'')
        CustomHeader,
      Spacer (15 / 100)]"
  by (simp add: document_head_def metadata_lines_def date_line_def Let_def)


lemma generate_audit_pdf_Inr:
  assumes "py_sorted (unique (map Category df)) = Inr categories"
  shows "generate_audit_pdf now1 now2 df cs bs ps
     = Inr \<lparr>doc_pagesize = (if ps = ''letter'' then Letter else A4),
            elements = document_head now1 now2 df cs bs
              @ page_separated (map (section_body df) categories)
              @ [Spacer (3 / 10), signature_table]\<rparr>"
  by (simp add: generate_audit_pdf_def assms Let_def sections_loop_page_separated)


lemma one_category_sorted:
  "py_sorted (unique (map Category [mk_line widget_key 8])) = Inr [Some ''Vape'']"
  by code_simp

lemma strftime_examples:
  "strftime_date morning = ''November 07, 2025''"
  "strftime_time morning = ''09:05 AM''"
  "strftime_date afternoon = ''November 07, 2025''"
  "strftime_time afternoon = ''02:30 PM''"
  by code_simp+

lemma date_lines_differ:
  "date_line morning morning [mk_line widget_key 8] \<noteq> date_line afternoon afternoon [mk_line widget_key 8]"
  by (simp add: date_line_def strftime_examples)

lemma generate_audit_pdf_date_line:
  assumes "generate_audit_pdf now1 now2 df cs bs ps = Inr d"
  shows "elements d ! 2 = date_line now1 now2 df"
proof -
  from assms obtain categories
    where "elements d = document_head now1 now2 df cs bs
             @ sections_loop df (length categories) 0 categories
             @ [Spacer (3 / 10), signature_table]"
    by (auto simp: generate_audit_pdf_def Let_def split: sum.splits)
  then show ?thesis
    by (simp add: document_head_eq)
qed

text \<open>The render succeeds when no category is missing, and when all are; it raises
  \<^verbatim>\<open>TypeError\<close> in \<^verbatim>\<open>sorted\<close> when a missing category stands beside a present one.\<close>

lemma generate_audit_pdf_succeeds:
  assumes "None \<notin> set (map Category df) \<or> list_all (\<lambda>c. c = None) (map Category df)"
  shows "\<exists>d. generate_audit_pdf now1 now2 df cs bs ps = Inr d"
proof -
  define u where "u = unique (map Category df)"
  have su: "set u = set (map Category df)"
    unfolding u_def by (rule unique_props(2))
  from assms have "\<exists>ys. py_sorted u = Inr ys"
  proof
    assume "None \<notin> set (map Category df)"
    then have "None \<notin> set u"
      using su by blast
    then show ?thesis
      by (simp add: py_sorted_def)
  next
    assume "list_all (\<lambda>c. c = None) (map Category df)"
    then have "list_all (\<lambda>c. c = None) u"
      unfolding list_all_iff using su by blast
    then show ?thesis
      by (simp add: py_sorted_def)
  qed
  then obtain ys where "py_sorted (unique (map Category df)) = Inr ys"
    unfolding u_def by blast
  then show ?thesis
    by (simp add: generate_audit_pdf_def Let_def)
qed

lemma generate_audit_pdf_mixed_missing:
  "generate_audit_pdf now1 now2 [mk_line uncategorised_key 6, mk_line widget_key 8] cs bs ps
     = Inl TypeError"
proof -
  have "py_sorted (unique (map Category [mk_line uncategorised_key 6, mk_line widget_key 8]))
          = Inl TypeError"
    by code_simp
  then show ?thesis
    by (simp add: generate_audit_pdf_def Let_def)
qed

text \<open>
  Claim C2. The renderer has no timestamp parameter. It reads the clock itself, once
  for the date and once for the time, and puts both readings into the first metadata
  paragraph, the flowable at index 2. So the output is not a function of the table,
  the selections and the page size: two renders of the same four arguments at
  different times differ. They differ in that paragraph only: whenever a render
  succeeds, the render of the same arguments at any other two readings succeeds as
  well and gives the same page size and the same flowables but for the paragraph at
  index 2, which carries the new readings.
\<close>

theorem generate_audit_pdf_reads_clock:
  assumes "generate_audit_pdf now1 now2 df cs bs ps = Inr d"
  shows "elements d ! 2 = date_line now1 now2 df
       \<and> generate_audit_pdf now1' now2' df cs bs ps
           = Inr (d\<lparr>elements := (elements d)[2 := date_line now1' now2' df]\<rparr>)"
proof -
  from assms obtain categories
    where ps: "py_sorted (unique (map Category df)) = Inr categories"
      and d: "d = \<lparr>doc_pagesize = (if ps = ''letter'' then Letter else A4),
                  elements = document_head now1 now2 df cs bs
                    @ sections_loop df (length categories) 0 categories
                    @ [Spacer (3 / 10), signature_table]\<rparr>"
    by (auto simp: generate_audit_pdf_def Let_def split: sum.splits)
  have g: "generate_audit_pdf now1' now2' df cs bs ps
      = Inr \<lparr>doc_pagesize = (if ps = ''letter'' then Letter else A4),
              elements = document_head now1' now2' df cs bs
                @ sections_loop df (length categories) 0 categories
                @ [Spacer (3 / 10), signature_table]\<rparr>"
    by (simp add: generate_audit_pdf_def ps Let_def)
  show ?thesis
    unfolding g d by (simp add: document_head_eq)
qed

lemma one_category_document:
  "generate_audit_pdf morning morning [mk_line widget_key 8] [''All''] [''All''] ''letter''
     = Inr \<lparr>doc_pagesize = Letter,
            elements = document_head morning morning [mk_line widget_key 8] [''All''] [''All'']
              @ section_body [mk_line widget_key 8] (Some ''Vape'')
              @ [Spacer (3 / 10), signature_table]\<rparr>"
  by (simp add: generate_audit_pdf_Inr[OF one_category_sorted])

theorem generate_audit_pdf_reads_clock_witness:
  "date_line morning morning [mk_line widget_key 8]
     = Paragraph ''<b>Date:</b> November 07, 2025 &nbsp;&nbsp;&nbsp; <b>Time:</b> 09:05 AM &nbsp;&nbsp;&nbsp; <b>Unique Batches:</b> 1'' CustomHeader
   \<and> generate_audit_pdf afternoon afternoon [mk_line widget_key 8] [''All''] [''All''] ''letter''
     = Inr \<lparr>doc_pagesize = Letter,
            elements = (document_head morning morning [mk_line widget_key 8] [''All''] [''All'']
              @ section_body [mk_line widget_key 8] (Some ''Vape'')
              @ [Spacer (3 / 10), signature_table])
                [2 := date_line afternoon afternoon [mk_line widget_key 8]]\<rparr>"
proof -
  have "str_nat (nunique (map Distru_Batch_Number [mk_line widget_key 8])) = ''1''"
    by code_simp
  then have "date_line morning morning [mk_line widget_key 8]
     = Paragraph ''<b>Date:</b> November 07, 2025 &nbsp;&nbsp;&nbsp; <b>Time:</b> 09:05 AM &nbsp;&nbsp;&nbsp; <b>Unique Batches:</b> 1'' CustomHeader"
    by (simp add: date_line_def strftime_examples)
  then show ?thesis
    using generate_audit_pdf_reads_clock[OF one_category_document, of afternoon afternoon]
    by simp
qed

text \<open>The same table, selections and page size, rendered at two different times, give two different documents.\<close>

theorem generate_audit_pdf_timestamp_counterexample:
  "generate_audit_pdf morning morning [mk_line widget_key 8] [''All''] [''All''] ''letter''
   \<noteq> generate_audit_pdf afternoon afternoon [mk_line widget_key 8] [''All''] [''All''] ''letter''"
proof
  assume eq: "generate_audit_pdf morning morning [mk_line widget_key 8] [''All''] [''All''] ''letter''
    = generate_audit_pdf afternoon afternoon [mk_line widget_key 8] [''All''] [''All''] ''letter''"
  obtain d where d: "generate_audit_pdf morning morning [mk_line widget_key 8] [''All''] [''All''] ''letter'' = Inr d"
    by (simp add: generate_audit_pdf_Inr[OF one_category_sorted])
  from generate_audit_pdf_date_line[OF d] generate_audit_pdf_date_line[OF d[unfolded eq]]
  show False
    using date_lines_differ by simp
qed




end
